theory Spec2Isabelle
  imports Complex_Main
begin

section \<open>Data model of the explorer page\<close>

text \<open>
  The page \<^verbatim>\<open>src/pages/Explorer.tsx\<close> keeps its data in plain objects. A JavaScript
  \<^verbatim>\<open>number\<close> that carries a measurement is read as a real number: the records come from
  a JSON payload, which has neither NaN nor an infinity, and the arithmetic is idealised
  (no rounding); what the page rounds to an integer is not computed here but taken as
  given. Array indices are natural numbers. A JavaScript string is a list of 8-bit
  characters, which covers the identifiers of the data set (\<^verbatim>\<open>K03034.01\<close>).
\<close>

record NASAExoplanetData =
  kepoi_name :: string
  koi_period :: real
  koi_prad :: real
  koi_teq :: real
  koi_steff :: real
  koi_srad :: real
  koi_insol :: real
  koi_disposition :: string
  koi_kepmag :: real
  ra_str :: string
  dec_str :: string

text \<open>
  Display strings are built with \<^verbatim>\<open>toFixed\<close>, \<^verbatim>\<open>toString\<close> and template literals. A
  display string is kept as the list of its pieces, so that the number and the number of
  digits asked for stay visible and no digit printing has to be modelled.
\<close>

datatype piece = Lit string | ToFixed real nat | ToString real

type_synonym display = "piece list"

text \<open>The unit symbols of the statistics are not 8-bit characters; they are named.\<close>

datatype unit_symbol = EarthRadii | Days | Kelvin | SolarRadii | EarthFlux | EmptyUnit

record stat =
  label :: string
  shown :: display
  unit_of :: "unit_symbol option"

record atmosphere_component =
  component :: string
  percentage :: real

record history_point =
  history_period :: string
  history_temperature :: real

record habitability_metric =
  metric_name :: string
  metric_value :: real

record ExoplanetData =
  detail_name :: string
  keyPoints :: "display list"
  detail_stats :: "stat list"
  detail_color :: string
  detail_temperature :: real
  atmosphereData :: "atmosphere_component list"
  temperatureHistory :: "history_point list"
  habitabilityMetrics :: "habitability_metric list"

text \<open>The field \<^verbatim>\<open>id\<close> of a scene object is \<open>planet_id\<close> here.\<close>

record UniversePlanetData =
  planet_id :: string
  name :: string
  position :: "real \<times> real \<times> real"
  radius :: real
  color :: string
  temperature :: real
  period :: real
  stats :: "stat list"

datatype view_mode = Universe | Detailed

datatype toast_variant = Destructive

record toast =
  title :: string
  description :: string
  variant :: "toast_variant option"

text \<open>
  The state of the component: one field for each \<^verbatim>\<open>useState\<close> cell, the module-level
  cache, the two output channels the handlers write to (the toasts shown and the lines
  sent to \<^verbatim>\<open>console.error\<close>), and the calls of \<^verbatim>\<open>generateExoplanet\<close> that wait on
  their two-second timer. A waiting call holds the name and the records of the render it
  was started from, which are the constants its closure reads after the wait.
\<close>

record pending_call =
  call_planetName :: string
  call_availablePlanets :: "NASAExoplanetData list"

record explorer_state =
  planetName :: string
  exoplanetData :: "ExoplanetData option"
  isLoading :: bool
  availablePlanets :: "NASAExoplanetData list"
  universePlanets :: "UniversePlanetData list"
  selectedPlanet :: "UniversePlanetData option"
  viewMode :: view_mode
  searchQuery :: string
  discoveredPlanets :: "string set"
  nasaExoplanetsCache :: "NASAExoplanetData list option"
  toasts :: "toast list"
  console :: "string list"
  pending :: "pending_call list"

section \<open>String helpers of the host language\<close>

text \<open>
  \<^verbatim>\<open>toLowerCase\<close> on code points below 256: the letters A to Z and the capital letters
  of Latin-1 (192 to 222, the multiplication sign 215 apart) move up by 32.
\<close>

definition toLowerCase_char :: "char \<Rightarrow> char" where
  "toLowerCase_char c =
     (let n = (of_char c :: nat)
      in if (65 \<le> n \<and> n \<le> 90) \<or> (192 \<le> n \<and> n \<le> 222 \<and> n \<noteq> 215)
         then char_of (n + 32) else c)"

definition toLowerCase :: "string \<Rightarrow> string" where
  "toLowerCase s = map toLowerCase_char s"

text \<open>\<^verbatim>\<open>s.includes(sub)\<close>: \<open>sub\<close> occurs in \<open>s\<close> as a contiguous block.\<close>

fun includes_str :: "string \<Rightarrow> string \<Rightarrow> bool" where
  "includes_str [] sub = (sub = [])"
| "includes_str (c # cs) sub = (take (length sub) (c # cs) = sub \<or> includes_str cs sub)"

text \<open>\<^verbatim>\<open>trim\<close> drops the white space at both ends (the white space below 256).\<close>

definition is_white_space :: "char \<Rightarrow> bool" where
  "is_white_space c = ((of_char c :: nat) \<in> {9, 10, 11, 12, 13, 32, 160})"

definition trim :: "string \<Rightarrow> string" where
  "trim s = rev (dropWhile is_white_space (rev (dropWhile is_white_space s)))"

section \<open>Colour and atmosphere\<close>

definition getPlanetColor :: "real \<Rightarrow> string" where
  "getPlanetColor t =
     (if t < 200 then ''blue''
      else if t < 230 then ''cyan''
      else if t < 260 then ''cyan''
      else if t < 290 then ''green''
      else if t < 320 then ''yellowgreen''
      else if t < 350 then ''yellow''
      else if t < 400 then ''orange''
      else if t < 500 then ''redorange''
      else ''red'')"

definition generateAtmosphereData :: "real \<Rightarrow> atmosphere_component list" where
  "generateAtmosphereData t =
     (if t < 220 then
        [\<lparr>component = ''N2'', percentage = 45\<rparr>,
         \<lparr>component = ''CO2'', percentage = 35\<rparr>,
         \<lparr>component = ''H2O'', percentage = 15\<rparr>,
         \<lparr>component = ''CH4'', percentage = 5\<rparr>]
      else if t < 280 then
        [\<lparr>component = ''H2O'', percentage = 40\<rparr>,
         \<lparr>component = ''N2'', percentage = 30\<rparr>,
         \<lparr>component = ''CO2'', percentage = 20\<rparr>,
         \<lparr>component = ''O2'', percentage = 10\<rparr>]
      else
        [\<lparr>component = ''CO2'', percentage = 50\<rparr>,
         \<lparr>component = ''H2O'', percentage = 25\<rparr>,
         \<lparr>component = ''N2'', percentage = 15\<rparr>,
         \<lparr>component = ''SO2'', percentage = 10\<rparr>])"

section \<open>Generating the universe\<close>

text \<open>
  One scene object per record, from the record and its index in the slice. The vertical
  offset uses \<^verbatim>\<open>Math.random()\<close>: \<open>rnd index\<close> is the number drawn for that index.
  The local \<^verbatim>\<open>radius\<close> of the callback (the radius of the orbital ring) is \<open>ring\<close>
  here, since \<open>radius\<close> is the field of the object.
\<close>

definition universe_planet :: "(nat \<Rightarrow> real) \<Rightarrow> nat \<Rightarrow> NASAExoplanetData \<Rightarrow> UniversePlanetData" where
  "universe_planet rnd index nasaPlanet =
     (let angle = (real index / 50) * pi * 12;
          ring = 112.5 + real (index mod 7) * 93.75;
          height = (rnd index - 0.5) * 150
      in \<lparr>planet_id = kepoi_name nasaPlanet,
          name = kepoi_name nasaPlanet,
          position = (cos angle * ring, height, sin angle * ring),
          radius = max 0.5 (min 3 (koi_prad nasaPlanet)),
          color = getPlanetColor (koi_teq nasaPlanet),
          temperature = koi_teq nasaPlanet,
          period = koi_period nasaPlanet,
          stats =
            [\<lparr>label = ''Radius'', shown = [ToFixed (koi_prad nasaPlanet) 2], unit_of = Some EarthRadii\<rparr>,
             \<lparr>label = ''Period'', shown = [ToFixed (koi_period nasaPlanet) 1], unit_of = Some Days\<rparr>,
             \<lparr>label = ''Temperature'', shown = [ToString (koi_teq nasaPlanet)], unit_of = Some Kelvin\<rparr>,
             \<lparr>label = ''Star Temp'', shown = [ToString (koi_steff nasaPlanet)], unit_of = Some Kelvin\<rparr>,
             \<lparr>label = ''Star Radius'', shown = [ToFixed (koi_srad nasaPlanet) 2], unit_of = Some SolarRadii\<rparr>,
             \<lparr>label = ''Irradiation'', shown = [ToFixed (koi_insol nasaPlanet) 2], unit_of = Some EarthFlux\<rparr>]\<rparr>)"

text \<open>The constant \<^verbatim>\<open>planets\<close> of \<^verbatim>\<open>generateUniversePlanets\<close>: slice, then map with index.\<close>

definition universe_planets :: "(nat \<Rightarrow> real) \<Rightarrow> NASAExoplanetData list \<Rightarrow> UniversePlanetData list" where
  "universe_planets rnd nasaData =
     map (\<lambda>(index, nasaPlanet). universe_planet rnd index nasaPlanet)
       (List.enumerate 0 (take 50 nasaData))"

definition generateUniversePlanets :: "(nat \<Rightarrow> real) \<Rightarrow> NASAExoplanetData list \<Rightarrow> explorer_state \<Rightarrow> explorer_state" where
  "generateUniversePlanets rnd nasaData s = s\<lparr>universePlanets := universe_planets rnd nasaData\<rparr>"

section \<open>Loading the records\<close>

text \<open>
  \<^verbatim>\<open>loadNASAData\<close> answers from the cache when there is one; otherwise the outcome of the
  request is \<open>fetched\<close>. A failed request, a response that is not ok and a body that
  does not parse all end in the same \<^verbatim>\<open>catch\<close>. The handler writes nothing before the
  request returns, so it is taken at the moment the request returns.
\<close>

datatype fetch_result = FetchFailed | FetchOk "NASAExoplanetData list"

definition loadNASAData :: "fetch_result \<Rightarrow> explorer_state \<Rightarrow> explorer_state" where
  "loadNASAData fetched s =
     (case nasaExoplanetsCache s of
        Some cached \<Rightarrow> s\<lparr>availablePlanets := cached\<rparr>
      | None \<Rightarrow>
          (case fetched of
             FetchOk data \<Rightarrow> s\<lparr>nasaExoplanetsCache := Some data, availablePlanets := data\<rparr>
           | FetchFailed \<Rightarrow>
               s\<lparr>console := console s @ [''Error loading NASA data:''],
                 toasts := toasts s @
                   [\<lparr>title = ''Data Loading Error'',
                     description = ''Failed to load NASA exoplanet data. Please try again.'',
                     variant = Some Destructive\<rparr>]\<rparr>))"

text \<open>The effect that regenerates the universe once records are available.\<close>

definition universe_effect :: "(nat \<Rightarrow> real) \<Rightarrow> explorer_state \<Rightarrow> explorer_state" where
  "universe_effect rnd s =
     (if length (availablePlanets s) > 0
      then generateUniversePlanets rnd (availablePlanets s) s else s)"

section \<open>Selection, search and the detail view\<close>

text \<open>
  \<^verbatim>\<open>generateRandomPlanet\<close> with \<open>r\<close> the number drawn. \<^verbatim>\<open>Math.random()\<close> lies in
  \<open>[0, 1)\<close>, so the index is in range; for any other \<open>r\<close> the read of \<^verbatim>\<open>.name\<close> would
  throw before a setter runs, and the state stays as it is.
\<close>

definition generateRandomPlanet :: "real \<Rightarrow> explorer_state \<Rightarrow> explorer_state" where
  "generateRandomPlanet r s =
     (if length (universePlanets s) > 0 then
        (let i = \<lfloor>r * real (length (universePlanets s))\<rfloor>
         in if 0 \<le> i \<and> nat i < length (universePlanets s) then
              (let randomPlanet = universePlanets s ! nat i
               in s\<lparr>searchQuery := name randomPlanet, planetName := name randomPlanet\<rparr>)
            else s)
      else s)"

definition handlePlanetSelect :: "UniversePlanetData \<Rightarrow> explorer_state \<Rightarrow> explorer_state" where
  "handlePlanetSelect planet s =
     s\<lparr>selectedPlanet := Some planet,
       planetName := name planet,
       discoveredPlanets := insert (planet_id planet) (discoveredPlanets s)\<rparr>"

definition handleSearch :: "string \<Rightarrow> explorer_state \<Rightarrow> explorer_state" where
  "handleSearch query s =
     (let s1 = s\<lparr>searchQuery := query\<rparr>
      in if query \<noteq> [] then
           (case find (\<lambda>p. includes_str (toLowerCase (name p)) (toLowerCase query))
                   (universePlanets s) of
              Some foundPlanet \<Rightarrow>
                s1\<lparr>selectedPlanet := Some foundPlanet, planetName := name foundPlanet\<rparr>
            | None \<Rightarrow> s1)
         else s1)"

text \<open>
  The object \<^verbatim>\<open>planetData\<close> built for a record found; \<open>rnd 0\<close> to \<open>rnd 2\<close> are the
  random numbers drawn for the temperature history. The habitability metrics are the
  result of \<^verbatim>\<open>generateHabitabilityMetrics\<close>, which rounds sums of doubles to integers
  and draws a random number of its own: that result is the input \<open>metrics_of\<close>.
\<close>

definition planet_data ::
  "(nat \<Rightarrow> real) \<Rightarrow> (NASAExoplanetData \<Rightarrow> habitability_metric list) \<Rightarrow> NASAExoplanetData \<Rightarrow> ExoplanetData" where
  "planet_data rnd metrics_of nasaPlanet =
     (let keyPoints =
            [[Lit ''Orbits '', ToString (koi_steff nasaPlanet), Lit ''K star every '',
              ToFixed (koi_period nasaPlanet) 1, Lit '' days''],
             [Lit ''Planet radius is '', ToFixed (koi_prad nasaPlanet) 2,
              Lit '' times Earth's radius''],
             [Lit ''Equilibrium temperature of '', ToString (koi_teq nasaPlanet), Lit ''K''],
             [Lit ''Receives '', ToFixed (koi_insol nasaPlanet) 2,
              Lit '' times Earth's solar irradiation''],
             [Lit ''Located at coordinates '', Lit (ra_str nasaPlanet), Lit '', '',
              Lit (dec_str nasaPlanet)]];
          esi = max 0 (min 1 (1 - \<bar>koi_prad nasaPlanet - 1\<bar> * 0.3
                                - \<bar>koi_teq nasaPlanet - 255\<bar> / 300))
      in \<lparr>detail_name = kepoi_name nasaPlanet,
          keyPoints = keyPoints,
          detail_stats =
            [\<lparr>label = ''Radius'', shown = [ToFixed (koi_prad nasaPlanet) 2], unit_of = Some EarthRadii\<rparr>,
             \<lparr>label = ''Period'', shown = [ToFixed (koi_period nasaPlanet) 1], unit_of = Some Days\<rparr>,
             \<lparr>label = ''Temperature'', shown = [ToString (koi_teq nasaPlanet)], unit_of = Some Kelvin\<rparr>,
             \<lparr>label = ''Star Temp'', shown = [ToString (koi_steff nasaPlanet)], unit_of = Some Kelvin\<rparr>,
             \<lparr>label = ''Star Radius'', shown = [ToFixed (koi_srad nasaPlanet) 2], unit_of = Some SolarRadii\<rparr>,
             \<lparr>label = ''ESI'', shown = [ToFixed esi 2], unit_of = Some EmptyUnit\<rparr>],
          detail_color = getPlanetColor (koi_teq nasaPlanet),
          detail_temperature = koi_teq nasaPlanet,
          atmosphereData = generateAtmosphereData (koi_teq nasaPlanet),
          temperatureHistory =
            [\<lparr>history_period = ''Present'', history_temperature = koi_teq nasaPlanet\<rparr>,
             \<lparr>history_period = ''1M years'', history_temperature = koi_teq nasaPlanet - rnd 0 * 10\<rparr>,
             \<lparr>history_period = ''10M years'', history_temperature = koi_teq nasaPlanet - rnd 1 * 20\<rparr>,
             \<lparr>history_period = ''100M years'', history_temperature = koi_teq nasaPlanet - rnd 2 * 30\<rparr>],
          habitabilityMetrics = metrics_of nasaPlanet\<rparr>)"

text \<open>
  \<^verbatim>\<open>generateExoplanet\<close> is asynchronous, and other handlers run while it waits. Its
  first part runs with the event that calls it: a name that trims to the empty string
  shows a toast and returns; any other name raises the loading flag and starts the
  two-second timer.
\<close>

definition generateExoplanet_begin :: "explorer_state \<Rightarrow> explorer_state" where
  "generateExoplanet_begin s =
     (if trim (planetName s) = [] then
        s\<lparr>toasts := toasts s @
            [\<lparr>title = ''Planet Name Required'',
              description = ''Please enter an exoplanet name or generate a random one.'',
              variant = Some Destructive\<rparr>]\<rparr>
      else
        s\<lparr>isLoading := True,
          pending := pending s @
            [\<lparr>call_planetName = planetName s, call_availablePlanets = availablePlanets s\<rparr>]\<rparr>)"

text \<open>
  Its second part runs when the timer fires, on the state of that moment: the lookup in
  the records of the call, \<^verbatim>\<open>try\<close> with its \<^verbatim>\<open>catch\<close> for the record not found, and
  \<^verbatim>\<open>finally\<close>, which lowers the flag.
\<close>

definition generateExoplanet_resume ::
  "(nat \<Rightarrow> real) \<Rightarrow> (NASAExoplanetData \<Rightarrow> habitability_metric list) \<Rightarrow> pending_call
     \<Rightarrow> explorer_state \<Rightarrow> explorer_state" where
  "generateExoplanet_resume rnd metrics_of call s =
     (case find (\<lambda>p. includes_str (toLowerCase (kepoi_name p)) (toLowerCase (call_planetName call))
                      \<or> includes_str (toLowerCase (call_planetName call)) (toLowerCase (kepoi_name p)))
               (call_availablePlanets call) of
        None \<Rightarrow>
          s\<lparr>console := console s @
                [''Error loading exoplanet: Planet not found in NASA database''],
            toasts := toasts s @
                [\<lparr>title = ''Planet Not Found'',
                  description =
                    ''This planet is not in the NASA habitable zone database. Try a random one!'',
                  variant = Some Destructive\<rparr>],
            isLoading := False\<rparr>
      | Some nasaPlanet \<Rightarrow>
          s\<lparr>exoplanetData := Some (planet_data rnd metrics_of nasaPlanet),
            toasts := toasts s @
                [\<lparr>title = ''Exoplanet Found!'',
                  description = ''Real NASA data loaded for '' @ kepoi_name nasaPlanet,
                  variant = None\<rparr>],
            isLoading := False\<rparr>)"

text \<open>\<^verbatim>\<open>switchToDetailedView\<close> starts the call without waiting for it.\<close>

definition switchToDetailedView :: "explorer_state \<Rightarrow> explorer_state" where
  "switchToDetailedView s =
     (case selectedPlanet s of
        Some _ \<Rightarrow> (generateExoplanet_begin s)\<lparr>viewMode := Detailed\<rparr>
      | None \<Rightarrow> s)"

section \<open>A session\<close>

text \<open>
  The events of the page, each with the handler wired to it: mounting (the request and
  the effect after it), a click on a planet, typing in the search box, closing the
  overlay, the shuffle button, expanding the overlay, the way back from the detail view,
  and a timer of \<^verbatim>\<open>generateExoplanet\<close> that fires (the timers have one delay, so they
  fire in the order they were started). Between the start of a call and its timer any
  other event may happen.
\<close>

datatype event =
    Mount fetch_result "nat \<Rightarrow> real"
  | PlanetClick UniversePlanetData
  | SearchInput string
  | CloseOverlay
  | Shuffle real
  | ExpandOverlay
  | BackToUniverse
  | TimerFired "nat \<Rightarrow> real" "NASAExoplanetData \<Rightarrow> habitability_metric list"

fun step :: "explorer_state \<Rightarrow> event \<Rightarrow> explorer_state" where
  "step s (Mount fetched rnd) = universe_effect rnd (loadNASAData fetched s)"
| "step s (PlanetClick planet) = handlePlanetSelect planet s"
| "step s (SearchInput query) = handleSearch query s"
| "step s CloseOverlay = s\<lparr>selectedPlanet := None\<rparr>"
| "step s (Shuffle r) = generateRandomPlanet r s"
| "step s ExpandOverlay = switchToDetailedView s"
| "step s BackToUniverse = s\<lparr>viewMode := Universe\<rparr>"
| "step s (TimerFired rnd metrics_of) =
     (case pending s of
        [] \<Rightarrow> s
      | call # calls \<Rightarrow> generateExoplanet_resume rnd metrics_of call (s\<lparr>pending := calls\<rparr>))"

definition run :: "explorer_state \<Rightarrow> event list \<Rightarrow> explorer_state" where
  "run s evs = foldl step s evs"

definition initial_state :: explorer_state where
  "initial_state =
     \<lparr>planetName = [], exoplanetData = None, isLoading = False, availablePlanets = [],
      universePlanets = [], selectedPlanet = None, viewMode = Universe, searchQuery = [],
      discoveredPlanets = {}, nasaExoplanetsCache = None, toasts = [], console = [],
      pending = []\<rparr>"

section \<open>Textures of the universe viewer\<close>

text \<open>
  \<^verbatim>\<open>getTextureForTemperature\<close> of \<^verbatim>\<open>src/components/universe-viewer.tsx\<close>. A texture is the
  file the import names.
\<close>

definition getTextureForTemperature :: "real \<Rightarrow> string \<Rightarrow> string" where
  "getTextureForTemperature temp planetId =
     (let hash = foldl (\<lambda>acc ch. acc + (of_char ch :: nat)) 0 planetId;
          variation = hash mod 5 + 1
      in if temp < 200 then
           [''planet-ice-blue-1.jpg'', ''planet-ice-blue-2.jpg'', ''planet-ice-blue-3.jpg'',
            ''planet-ice-blue-4.jpg'', ''planet-ice-blue-5.jpg''] ! (variation - 1)
         else if temp < 260 then
           [''planet-cyan-cold-1.jpg'', ''planet-cyan-cold-2.jpg'', ''planet-cyan-cold-3.jpg'',
            ''planet-cyan-cold-4.jpg'', ''planet-cyan-cold-5.jpg''] ! (variation - 1)
         else if temp < 290 then
           [''planet-green-temperate-1.jpg'', ''planet-green-temperate-2.jpg'',
            ''planet-green-temperate-3.jpg'', ''planet-green-temperate-4.jpg'',
            ''planet-green-temperate-5.jpg''] ! (variation - 1)
         else if temp < 350 then
           [''planet-yellow-warm-1.jpg'', ''planet-yellow-warm-2.jpg'',
            ''planet-yellow-warm-3.jpg'', ''planet-yellow-warm-4.jpg'',
            ''planet-yellow-warm-5.jpg''] ! (variation - 1)
         else if temp < 450 then
           [''planet-orange-hot-1.jpg'', ''planet-orange-hot-2.jpg'', ''planet-orange-hot-3.jpg'',
            ''planet-orange-hot-4.jpg'', ''planet-orange-hot-5.jpg''] ! (variation - 1)
         else
           [''planet-red-scorching-1.jpg'', ''planet-red-scorching-2.jpg'',
            ''planet-red-scorching-3.jpg'', ''planet-red-scorching-4.jpg'',
            ''planet-red-scorching-5.jpg''] ! (variation - 1))"

section \<open>Observers and test records\<close>

text \<open>
  The distance of a scene object from the vertical axis, read off its position.
\<close>

definition ring_radius_of :: "UniversePlanetData \<Rightarrow> real" where
  "ring_radius_of p = (case position p of (x, y, z) \<Rightarrow> sqrt (x\<^sup>2 + z\<^sup>2))"

text \<open>
  The band of a temperature in the texture table, as the part of the file name the five
  variants of a band share, and the sum of the character codes of an identifier.
\<close>

definition texture_band :: "real \<Rightarrow> string" where
  "texture_band temp =
     (if temp < 200 then ''ice-blue''
      else if temp < 260 then ''cyan-cold''
      else if temp < 290 then ''green-temperate''
      else if temp < 350 then ''yellow-warm''
      else if temp < 450 then ''orange-hot''
      else ''red-scorching'')"

definition char_code_sum :: "string \<Rightarrow> nat" where
  "char_code_sum planetId = sum_list (map of_char planetId)"

text \<open>
  Synthetic records with the identifiers \<^verbatim>\<open>P0\<close>, \<^verbatim>\<open>P1\<close>, ... (two digits at most),
  used where a property is run on concrete input: three records with a small, a middle and
  a large radius; the object made from record \<^verbatim>\<open>P3\<close>; a session that loads five
  records and selects \<^verbatim>\<open>P3\<close>; a session that selects an object whose name no
  record carries; and a session over records of which one has a name of two spaces, in
  which the detail view of \<^verbatim>\<open>P3\<close> is asked for and, before its timer fires, the
  object with the blank name is selected.
\<close>

definition synthetic_name :: "nat \<Rightarrow> string" where
  "synthetic_name i =
     CHR ''P'' # (if i < 10 then [char_of (48 + i)]
                  else [char_of (48 + i div 10), char_of (48 + i mod 10)])"

definition synthetic_record :: "nat \<Rightarrow> NASAExoplanetData" where
  "synthetic_record i =
     \<lparr>kepoi_name = synthetic_name i, koi_period = 100, koi_prad = 1, koi_teq = 250,
      koi_steff = 5778, koi_srad = 1, koi_insol = 1, koi_disposition = ''CANDIDATE'',
      koi_kepmag = 14, ra_str = ''19h00m00s'', dec_str = ''+40d00m00s''\<rparr>"

definition synthetic_records :: "nat \<Rightarrow> NASAExoplanetData list" where
  "synthetic_records n = map synthetic_record [0..<n]"

definition radius_samples :: "NASAExoplanetData list" where
  "radius_samples =
     [(synthetic_record 0)\<lparr>koi_prad := 1 / 5\<rparr>,
      (synthetic_record 1)\<lparr>koi_prad := 3 / 2\<rparr>,
      (synthetic_record 2)\<lparr>koi_prad := 10\<rparr>]"

definition planet_P3 :: UniversePlanetData where
  "planet_P3 = universe_planet (\<lambda>_. 1 / 2) 3 (synthetic_record 3)"

definition scenario_state :: explorer_state where
  "scenario_state =
     run initial_state [Mount (FetchOk (synthetic_records 5)) (\<lambda>_. 1 / 2), PlanetClick planet_P3]"

definition planet_Zeta :: UniversePlanetData where
  "planet_Zeta = planet_P3\<lparr>planet_id := ''Zeta'', name := ''Zeta''\<rparr>"

definition unmatched_state :: explorer_state where
  "unmatched_state =
     run initial_state [Mount (FetchOk (synthetic_records 5)) (\<lambda>_. 1 / 2), PlanetClick planet_Zeta]"

definition call_Zeta :: pending_call where
  "call_Zeta = \<lparr>call_planetName = ''Zeta'', call_availablePlanets = synthetic_records 5\<rparr>"

definition blank_record :: NASAExoplanetData where
  "blank_record = (synthetic_record 5)\<lparr>kepoi_name := ''  ''\<rparr>"

definition planet_blank :: UniversePlanetData where
  "planet_blank = universe_planet (\<lambda>_. 1 / 2) 5 blank_record"

definition loading_blank_state :: explorer_state where
  "loading_blank_state =
     run initial_state
       [Mount (FetchOk (synthetic_records 5 @ [blank_record])) (\<lambda>_. 1 / 2),
        PlanetClick planet_P3, ExpandOverlay, BackToUniverse, PlanetClick planet_blank]"

section \<open>Facts about the helpers\<close>

text \<open>
  The string helpers mean what their names say: \<open>includes_str\<close> finds a contiguous
  block, and a string trims to nothing exactly when it is white space throughout.
\<close>

lemma includes_str_iff:
  "includes_str s sub \<longleftrightarrow> (\<exists>pre suf. s = pre @ sub @ suf)"
proof (induction s)
  case Nil
  then show ?case by auto
next
  case (Cons c cs)
  have pre: "take (length sub) (c # cs) = sub \<longleftrightarrow> (\<exists>suf. c # cs = sub @ suf)"
    by (metis append_eq_conv_conj)
  show ?case
  proof
    assume "includes_str (c # cs) sub"
    then consider "take (length sub) (c # cs) = sub" | "includes_str cs sub"
      by auto
    then show "\<exists>pre suf. c # cs = pre @ sub @ suf"
    proof cases
      case 1
      with pre obtain suf where "c # cs = [] @ sub @ suf" by auto
      then show ?thesis by blast
    next
      case 2
      with Cons.IH obtain p q where "cs = p @ sub @ q" by blast
      then have "c # cs = (c # p) @ sub @ q" by simp
      then show ?thesis by blast
    qed
  next
    assume "\<exists>pre suf. c # cs = pre @ sub @ suf"
    then obtain p q where pq: "c # cs = p @ sub @ q" by blast
    show "includes_str (c # cs) sub"
    proof (cases p)
      case Nil
      with pq have "\<exists>suf. c # cs = sub @ suf" by auto
      with pre have "take (length sub) (c # cs) = sub" by blast
      then show ?thesis by simp
    next
      case (Cons a p')
      with pq have "cs = p' @ sub @ q" by simp
      with Cons.IH show ?thesis by auto
    qed
  qed
qed

lemma dropWhile_all_iff:
  "(\<forall>c \<in> set (dropWhile P s). P c) \<longleftrightarrow> (\<forall>c \<in> set s. P c)"
proof
  assume a: "\<forall>c \<in> set (dropWhile P s). P c"
  have "dropWhile P s = []"
  proof (rule ccontr)
    assume ne: "dropWhile P s \<noteq> []"
    then have "hd (dropWhile P s) \<in> set (dropWhile P s)"
      by simp
    with a have "P (hd (dropWhile P s))"
      by blast
    moreover from ne have "\<not> P (hd (dropWhile P s))"
      by (rule hd_dropWhile)
    ultimately show False
      by blast
  qed
  then show "\<forall>c \<in> set s. P c"
    by (simp only: dropWhile_eq_Nil_conv)
next
  assume "\<forall>c \<in> set s. P c"
  then show "\<forall>c \<in> set (dropWhile P s). P c"
    by (metis set_dropWhileD)
qed

lemma trim_empty_iff: "trim s = [] \<longleftrightarrow> (\<forall>c \<in> set s. is_white_space c)"
  by (simp add: trim_def dropWhile_all_iff)

lemma length_universe_planets:
  "length (universe_planets rnd nasaData) = min (length nasaData) 50"
  by (simp add: universe_planets_def min.commute)

lemma nth_universe_planets:
  "i < length nasaData \<Longrightarrow> i < 50 \<Longrightarrow>
   universe_planets rnd nasaData ! i = universe_planet rnd i (nasaData ! i)"
  by (simp add: universe_planets_def nth_enumerate_eq)

lemma map_planet_id_universe_planets:
  "map planet_id (universe_planets rnd nasaData) = map kepoi_name (take 50 nasaData)"
  unfolding universe_planets_def
  by (simp add: universe_planet_def Let_def case_prod_beta o_def enumerate_eq_zip
        flip: map_map[of kepoi_name snd, unfolded o_def])

lemma map_name_universe_planets:
  "map name (universe_planets rnd nasaData) = map kepoi_name (take 50 nasaData)"
  unfolding universe_planets_def
  by (simp add: universe_planet_def Let_def case_prod_beta o_def enumerate_eq_zip
        flip: map_map[of kepoi_name snd, unfolded o_def])

lemma position_universe_planet:
  "position (universe_planet rnd i p)
     = (cos (real i / 50 * pi * 12) * (112.5 + real (i mod 7) * 93.75),
        (rnd i - 0.5) * 150,
        sin (real i / 50 * pi * 12) * (112.5 + real (i mod 7) * 93.75))"
  by (simp add: universe_planet_def Let_def)

lemma ring_radius_of_universe_planet:
  "ring_radius_of (universe_planet rnd i p) = 112.5 + real (i mod 7) * 93.75"
proof -
  have "sqrt ((cos a * r)\<^sup>2 + (sin a * r)\<^sup>2) = \<bar>r\<bar>" for a r :: real
  proof -
    have "(cos a * r)\<^sup>2 + (sin a * r)\<^sup>2 = r\<^sup>2 * ((cos a)\<^sup>2 + (sin a)\<^sup>2)"
      by (simp only: power_mult_distrib distrib_left mult.commute)
    also have "\<dots> = r\<^sup>2"
      by simp
    finally show ?thesis by simp
  qed
  then show ?thesis
    by (simp add: ring_radius_of_def universe_planet_def Let_def)
qed

lemma angle_eq_iff:
  fixes i n :: nat
  assumes "0 < n"
  shows "real i / 50 * (12 * pi) = real i / real n * (12 * pi) \<longleftrightarrow> i = 0 \<or> n = 50"
proof -
  have c: "12 * pi \<noteq> 0"
    by simp
  have "real i / 50 * (12 * pi) = real i / real n * (12 * pi) \<longleftrightarrow> real i / 50 = real i / real n"
    by (rule mult_right_cancel [OF c])
  also have "\<dots> \<longleftrightarrow> real i * real n = real i * 50"
    using assms by (simp add: frac_eq_eq)
  also have "\<dots> \<longleftrightarrow> i = 0 \<or> real n = real 50"
    by simp
  also have "\<dots> \<longleftrightarrow> i = 0 \<or> n = 50"
    by (simp only: of_nat_eq_iff)
  finally show ?thesis .
qed

lemma three_turns: "cos (6 * pi) = 1" "sin (6 * pi) = 0"
  using cos_2npi [of 3] sin_2npi [of 3] by simp_all

lemma seven_and_a_half_pi: "cos (15 * pi / 2) = 0" "sin (15 * pi / 2) = - 1"
proof -
  have e: "15 * pi / 2 = pi / 2 + real 7 * pi"
    by simp
  show "cos (15 * pi / 2) = 0"
    unfolding e cos_add using cos_npi [of 7] sin_npi [of 7] by simp
  show "sin (15 * pi / 2) = - 1"
    unfolding e sin_add using cos_npi [of 7] sin_npi [of 7] by simp
qed

lemma length_synthetic_records: "length (synthetic_records n) = n"
  by (simp add: synthetic_records_def)

lemma synthetic_names_5:
  "map kepoi_name (synthetic_records 5) = [''P0'', ''P1'', ''P2'', ''P3'', ''P4'']"
  by code_simp

lemma no_zzz:
  "list_all (\<lambda>n. \<not> includes_str (toLowerCase n) (toLowerCase ''zzz''))
     [''P0'', ''P1'', ''P2'', ''P3'', ''P4'']"
  by code_simp

lemma no_zeta:
  "list_all (\<lambda>n. \<not> includes_str (toLowerCase n) (toLowerCase ''Zeta'')
                \<and> \<not> includes_str (toLowerCase ''Zeta'') (toLowerCase n))
     [''P0'', ''P1'', ''P2'', ''P3'', ''P4'']"
  by code_simp

lemma mounted_state:
  "run initial_state [Mount (FetchOk (synthetic_records 5)) rnd, PlanetClick planet]
     = initial_state
         \<lparr>nasaExoplanetsCache := Some (synthetic_records 5),
          availablePlanets := synthetic_records 5,
          universePlanets := universe_planets rnd (synthetic_records 5),
          selectedPlanet := Some planet,
          planetName := name planet,
          discoveredPlanets := {planet_id planet}\<rparr>"
  by (simp add: run_def universe_effect_def loadNASAData_def generateUniversePlanets_def
        handlePlanetSelect_def initial_state_def synthetic_records_def)

lemma foldl_char_codes:
  "foldl (\<lambda>acc ch. acc + (of_char ch :: nat)) a planetId = a + char_code_sum planetId"
  unfolding char_code_sum_def by (induction planetId arbitrary: a) simp_all

lemma variant_digits:
  "char_of (49 :: nat) = CHR ''1''" "char_of (50 :: nat) = CHR ''2''"
  "char_of (51 :: nat) = CHR ''3''" "char_of (52 :: nat) = CHR ''4''"
  "char_of (53 :: nat) = CHR ''5''"
  by code_simp+

lemma texture_of_variant:
  assumes "k < 5"
  shows "(let variation = k + 1
      in if temp < 200 then
           [''planet-ice-blue-1.jpg'', ''planet-ice-blue-2.jpg'', ''planet-ice-blue-3.jpg'',
            ''planet-ice-blue-4.jpg'', ''planet-ice-blue-5.jpg''] ! (variation - 1)
         else if temp < 260 then
           [''planet-cyan-cold-1.jpg'', ''planet-cyan-cold-2.jpg'', ''planet-cyan-cold-3.jpg'',
            ''planet-cyan-cold-4.jpg'', ''planet-cyan-cold-5.jpg''] ! (variation - 1)
         else if temp < 290 then
           [''planet-green-temperate-1.jpg'', ''planet-green-temperate-2.jpg'',
            ''planet-green-temperate-3.jpg'', ''planet-green-temperate-4.jpg'',
            ''planet-green-temperate-5.jpg''] ! (variation - 1)
         else if temp < 350 then
           [''planet-yellow-warm-1.jpg'', ''planet-yellow-warm-2.jpg'',
            ''planet-yellow-warm-3.jpg'', ''planet-yellow-warm-4.jpg'',
            ''planet-yellow-warm-5.jpg''] ! (variation - 1)
         else if temp < 450 then
           [''planet-orange-hot-1.jpg'', ''planet-orange-hot-2.jpg'', ''planet-orange-hot-3.jpg'',
            ''planet-orange-hot-4.jpg'', ''planet-orange-hot-5.jpg''] ! (variation - 1)
         else
           [''planet-red-scorching-1.jpg'', ''planet-red-scorching-2.jpg'',
            ''planet-red-scorching-3.jpg'', ''planet-red-scorching-4.jpg'',
            ''planet-red-scorching-5.jpg''] ! (variation - 1))
     = ''planet-'' @ texture_band temp @ ''-'' @ [char_of (49 + k)] @ ''.jpg''"
proof -
  from assms consider "k = 0" | "k = 1" | "k = 2" | "k = 3" | "k = 4"
    by linarith
  then show ?thesis
    by cases (simp_all add: texture_band_def variant_digits)
qed

lemma run_append: "run s (evs @ evs') = run (run s evs) evs'"
  by (simp add: run_def)

lemma step_discovered: "discoveredPlanets s \<subseteq> discoveredPlanets (step s e)"
  by (cases e)
    (auto simp add: universe_effect_def loadNASAData_def generateUniversePlanets_def
      handlePlanetSelect_def handleSearch_def generateRandomPlanet_def
      switchToDetailedView_def generateExoplanet_begin_def generateExoplanet_resume_def Let_def
      split: option.splits fetch_result.splits list.splits)

lemma run_discovered: "discoveredPlanets s \<subseteq> discoveredPlanets (run s evs)"
proof (induction evs arbitrary: s)
  case Nil
  show ?case by (simp add: run_def)
next
  case (Cons e evs)
  have "discoveredPlanets s \<subseteq> discoveredPlanets (step s e)"
    by (rule step_discovered)
  also have "\<dots> \<subseteq> discoveredPlanets (run (step s e) evs)"
    by (rule Cons.IH)
  finally show ?case by (simp add: run_def)
qed

section \<open>Properties of the scene generator\<close>

text \<open>
  Claim C1. For a record list of length \<open>N\<close> the generator keeps the leading records up
  to the limit 50 and produces exactly \<open>min N 50\<close> scene objects; the object at index
  \<open>i\<close> has the identifier and the name of record \<open>i\<close>; the identifiers are pairwise
  distinct whenever those of the records (all of them, or the leading 50) are.
\<close>

theorem generate_count_and_identifiers:
  "length (universePlanets (generateUniversePlanets rnd nasaData s)) = min (length nasaData) 50
   \<and> map planet_id (universePlanets (generateUniversePlanets rnd nasaData s))
       = map kepoi_name (take 50 nasaData)
   \<and> (\<forall>i < min (length nasaData) 50.
         planet_id (universePlanets (generateUniversePlanets rnd nasaData s) ! i)
           = kepoi_name (nasaData ! i)
         \<and> name (universePlanets (generateUniversePlanets rnd nasaData s) ! i)
           = kepoi_name (nasaData ! i))
   \<and> (distinct (map kepoi_name (take 50 nasaData))
        \<longrightarrow> distinct (map planet_id (universePlanets (generateUniversePlanets rnd nasaData s))))
   \<and> (distinct (map kepoi_name nasaData)
        \<longrightarrow> distinct (map planet_id (universePlanets (generateUniversePlanets rnd nasaData s))))"
proof -
  have ids: "map planet_id (universe_planets rnd nasaData) = map kepoi_name (take 50 nasaData)"
    by (rule map_planet_id_universe_planets)
  have each: "\<forall>i < min (length nasaData) 50.
      planet_id (universe_planets rnd nasaData ! i) = kepoi_name (nasaData ! i)
      \<and> name (universe_planets rnd nasaData ! i) = kepoi_name (nasaData ! i)"
    by (simp add: nth_universe_planets universe_planet_def Let_def)
  have d: "distinct (map kepoi_name nasaData) \<Longrightarrow> distinct (map kepoi_name (take 50 nasaData))"
    by (simp add: take_map[symmetric])
  show ?thesis
    using ids each d
    by (simp add: generateUniversePlanets_def length_universe_planets)
qed

theorem generate_count_and_identifiers_witness:
  "distinct (map kepoi_name (synthetic_records 60))
   \<and> length (universePlanets (generateUniversePlanets (\<lambda>_. 1 / 2) (synthetic_records 60) initial_state)) = 50
   \<and> planet_id (universePlanets (generateUniversePlanets (\<lambda>_. 1 / 2) (synthetic_records 60) initial_state) ! 49) = ''P49''
   \<and> name (universePlanets (generateUniversePlanets (\<lambda>_. 1 / 2) (synthetic_records 60) initial_state) ! 49) = ''P49''
   \<and> distinct (map planet_id (universePlanets (generateUniversePlanets (\<lambda>_. 1 / 2) (synthetic_records 60) initial_state)))"
proof -
  have d: "distinct (map kepoi_name (synthetic_records 60))"
    by code_simp
  have l: "length (synthetic_records 60) = 60"
    by (simp add: synthetic_records_def)
  have n: "kepoi_name (synthetic_records 60 ! 49) = ''P49''"
    by code_simp
  note T = generate_count_and_identifiers [of "\<lambda>_. 1 / 2" "synthetic_records 60" initial_state]
  from T l have c1: "length (universePlanets (generateUniversePlanets (\<lambda>_. 1 / 2) (synthetic_records 60) initial_state)) = 50"
    by simp
  from T l have "\<forall>i<50. planet_id (universePlanets (generateUniversePlanets (\<lambda>_. 1 / 2) (synthetic_records 60) initial_state) ! i) = kepoi_name (synthetic_records 60 ! i)
         \<and> name (universePlanets (generateUniversePlanets (\<lambda>_. 1 / 2) (synthetic_records 60) initial_state) ! i) = kepoi_name (synthetic_records 60 ! i)"
    by simp
  with n have c2: "planet_id (universePlanets (generateUniversePlanets (\<lambda>_. 1 / 2) (synthetic_records 60) initial_state) ! 49) = ''P49''
      \<and> name (universePlanets (generateUniversePlanets (\<lambda>_. 1 / 2) (synthetic_records 60) initial_state) ! 49) = ''P49''"
    by simp
  from T d have c3: "distinct (map planet_id (universePlanets (generateUniversePlanets (\<lambda>_. 1 / 2) (synthetic_records 60) initial_state)))"
    by blast
  from d c1 c2 c3 show ?thesis by blast
qed

text \<open>
  Claim C3, as the code has it. The angle that places the object at index \<open>i\<close> is
  \<open>(i / 50) * 12 * pi\<close>: the divisor is the constant 50, whatever the number of objects.
  That angle is \<open>(i / N) * 12 * pi\<close>, for \<open>N\<close> the number of objects, exactly when
  \<open>i = 0\<close> or \<open>N = 50\<close>.
\<close>

theorem placement_angle_fixed_divisor:
  "\<forall>i < length (universePlanets (generateUniversePlanets rnd nasaData s)).
     position (universePlanets (generateUniversePlanets rnd nasaData s) ! i)
       = (cos (real i / 50 * (12 * pi)) * (112.5 + real (i mod 7) * 93.75),
          (rnd i - 0.5) * 150,
          sin (real i / 50 * (12 * pi)) * (112.5 + real (i mod 7) * 93.75))
     \<and> (real i / 50 * (12 * pi)
            = real i / real (length (universePlanets (generateUniversePlanets rnd nasaData s)))
                * (12 * pi)
          \<longleftrightarrow> i = 0 \<or> length (universePlanets (generateUniversePlanets rnd nasaData s)) = 50)"
proof (intro allI impI conjI)
  fix i
  assume i: "i < length (universePlanets (generateUniversePlanets rnd nasaData s))"
  let ?n = "length (universePlanets (generateUniversePlanets rnd nasaData s))"
  from i show "position (universePlanets (generateUniversePlanets rnd nasaData s) ! i)
       = (cos (real i / 50 * (12 * pi)) * (112.5 + real (i mod 7) * 93.75),
          (rnd i - 0.5) * 150,
          sin (real i / 50 * (12 * pi)) * (112.5 + real (i mod 7) * 93.75))"
    by (simp add: generateUniversePlanets_def length_universe_planets nth_universe_planets
          position_universe_planet mult.commute)
  have "0 < ?n"
    by (rule order.strict_trans1 [OF le0 i])
  then show "real i / 50 * (12 * pi) = real i / real ?n * (12 * pi) \<longleftrightarrow> i = 0 \<or> ?n = 50"
    by (rule angle_eq_iff)
qed

theorem placement_angle_fixed_divisor_witness:
  "position (universePlanets (generateUniversePlanets (\<lambda>_. 1 / 2) (synthetic_records 60) initial_state) ! 25) = (487.5, 0, 0)
   \<and> length (universePlanets (generateUniversePlanets (\<lambda>_. 1 / 2) (synthetic_records 60) initial_state)) = 50
   \<and> real 25 / 50 * (12 * pi) = real 25 / real (length (universePlanets (generateUniversePlanets (\<lambda>_. 1 / 2) (synthetic_records 60) initial_state))) * (12 * pi)
   \<and> length (universePlanets (generateUniversePlanets (\<lambda>_. 1 / 2) (synthetic_records 40) initial_state)) = 40
   \<and> real 25 / 50 * (12 * pi) \<noteq> real 25 / real (length (universePlanets (generateUniversePlanets (\<lambda>_. 1 / 2) (synthetic_records 40) initial_state))) * (12 * pi)
   \<and> real 0 / 50 * (12 * pi) = real 0 / real (length (universePlanets (generateUniversePlanets (\<lambda>_. 1 / 2) (synthetic_records 40) initial_state))) * (12 * pi)"
proof -
  have l: "length (universePlanets (generateUniversePlanets (\<lambda>_. 1 / 2) (synthetic_records 60) initial_state)) = 50"
    by (simp add: generateUniversePlanets_def length_universe_planets length_synthetic_records)
  have l': "length (universePlanets (generateUniversePlanets (\<lambda>_. 1 / 2) (synthetic_records 40) initial_state)) = 40"
    by (simp add: generateUniversePlanets_def length_universe_planets length_synthetic_records)
  have i: "(25::nat) < 50" and i': "(25::nat) < 40" and z: "(0::nat) < 40"
    by simp_all
  note T = placement_angle_fixed_divisor [of "\<lambda>_. 1 / 2" "synthetic_records 60" initial_state,
      unfolded l, rule_format, OF i]
  from T have "position (universePlanets (generateUniversePlanets (\<lambda>_. 1 / 2) (synthetic_records 60) initial_state) ! 25)
       = (cos (real 25 / 50 * (12 * pi)) * (112.5 + real (25 mod 7) * 93.75),
          (1 / 2 - 0.5) * 150,
          sin (real 25 / 50 * (12 * pi)) * (112.5 + real (25 mod 7) * 93.75))"
    by blast
  then have p: "position (universePlanets (generateUniversePlanets (\<lambda>_. 1 / 2) (synthetic_records 60) initial_state) ! 25) = (487.5, 0, 0)"
    by (simp add: three_turns)
  from T have e: "real 25 / 50 * (12 * pi) = real 25 / real (50::nat) * (12 * pi)"
    by blast
  note U = placement_angle_fixed_divisor [of "\<lambda>_. 1 / 2" "synthetic_records 40" initial_state,
      unfolded l', rule_format, OF i']
  from U have d: "real 25 / 50 * (12 * pi) \<noteq> real 25 / real (40::nat) * (12 * pi)"
    by simp
  note V = placement_angle_fixed_divisor [of "\<lambda>_. 1 / 2" "synthetic_records 40" initial_state,
      unfolded l', rule_format, OF z]
  from V have f: "real 0 / 50 * (12 * pi) = real 0 / real (40::nat) * (12 * pi)"
    by blast
  from p l l' e d f show ?thesis
    by simp
qed

text \<open>
  With 40 records the object at index 25 sits at angle \<open>6 * pi\<close>, on the positive x
  axis; the angle \<open>(25 / 40) * 12 * pi\<close> would put it on the negative z axis.
\<close>

theorem placement_angle_counterexample:
  "length (universePlanets (generateUniversePlanets (\<lambda>_. 1 / 2) (synthetic_records 40) initial_state)) = 40
   \<and> position (universePlanets (generateUniversePlanets (\<lambda>_. 1 / 2) (synthetic_records 40) initial_state) ! 25)
       = (487.5, 0, 0)
   \<and> (cos (25 / 40 * (12 * pi)) * (112.5 + real (25 mod 7) * 93.75), (1 / 2 - 0.5) * (150 :: real),
       sin (25 / 40 * (12 * pi)) * (112.5 + real (25 mod 7) * 93.75))
       = (0, 0 :: real, - 487.5)
   \<and> position (universePlanets (generateUniversePlanets (\<lambda>_. 1 / 2) (synthetic_records 40) initial_state) ! 25)
       \<noteq> (cos (25 / 40 * (12 * pi)) * (112.5 + real (25 mod 7) * 93.75), (1 / 2 - 0.5) * (150 :: real),
           sin (25 / 40 * (12 * pi)) * (112.5 + real (25 mod 7) * 93.75))"
proof -
  have l: "length (universePlanets (generateUniversePlanets (\<lambda>_. 1 / 2) (synthetic_records 40) initial_state)) = 40"
    by (simp add: generateUniversePlanets_def length_universe_planets length_synthetic_records)
  have "universePlanets (generateUniversePlanets (\<lambda>_. 1 / 2) (synthetic_records 40) initial_state) ! 25
      = universe_planet (\<lambda>_. 1 / 2) 25 (synthetic_records 40 ! 25)"
    by (simp add: generateUniversePlanets_def nth_universe_planets length_synthetic_records)
  then have p: "position (universePlanets (generateUniversePlanets (\<lambda>_. 1 / 2) (synthetic_records 40) initial_state) ! 25)
       = (487.5, 0, 0)"
    by (simp add: position_universe_planet three_turns)
  have "25 / 40 * (12 * pi) = 15 * pi / 2"
    by simp
  then have c: "(cos (25 / 40 * (12 * pi)) * (112.5 + real (25 mod 7) * 93.75), (1 / 2 - 0.5) * (150 :: real),
       sin (25 / 40 * (12 * pi)) * (112.5 + real (25 mod 7) * 93.75))
       = (0, 0 :: real, - 487.5)"
    by (simp add: seven_and_a_half_pi)
  from l p c show ?thesis
    by simp
qed

text \<open>
  Claim C4. The object at index \<open>i\<close> lies at distance \<open>112.5 + (i mod 7) * 93.75\<close>
  from the vertical axis: its position is that ring radius times the cosine and the sine of
  an angle, with the random height between them. The ring radius repeats every seven
  indices; with the 50 records \<^verbatim>\<open>P0\<close> to \<^verbatim>\<open>P49\<close> the objects 0 and 7 are on the same
  ring.
\<close>

theorem ring_radius_period_seven:
  "\<forall>i < length (universePlanets (generateUniversePlanets rnd nasaData s)).
     ring_radius_of (universePlanets (generateUniversePlanets rnd nasaData s) ! i)
       = 112.5 + real (i mod 7) * 93.75
     \<and> (\<exists>a. position (universePlanets (generateUniversePlanets rnd nasaData s) ! i)
              = (cos a * (112.5 + real (i mod 7) * 93.75), (rnd i - 0.5) * 150,
                 sin a * (112.5 + real (i mod 7) * 93.75)))
     \<and> (i + 7 < length (universePlanets (generateUniversePlanets rnd nasaData s)) \<longrightarrow>
          ring_radius_of (universePlanets (generateUniversePlanets rnd nasaData s) ! (i + 7))
            = ring_radius_of (universePlanets (generateUniversePlanets rnd nasaData s) ! i))"
proof (intro allI impI)
  fix i
  assume i: "i < length (universePlanets (generateUniversePlanets rnd nasaData s))"
  let ?objs = "universePlanets (generateUniversePlanets rnd nasaData s)"
  have objs: "?objs = universe_planets rnd nasaData"
    by (simp add: generateUniversePlanets_def)
  from i have b: "i < length nasaData" "i < 50"
    by (simp_all add: objs length_universe_planets)
  have r: "ring_radius_of (?objs ! i) = 112.5 + real (i mod 7) * 93.75"
    using b by (simp add: objs nth_universe_planets ring_radius_of_universe_planet)
  have p: "\<exists>a. position (?objs ! i)
              = (cos a * (112.5 + real (i mod 7) * 93.75), (rnd i - 0.5) * 150,
                 sin a * (112.5 + real (i mod 7) * 93.75))"
    using b
    by (intro exI [of _ "real i / 50 * pi * 12"])
      (simp add: objs nth_universe_planets universe_planet_def Let_def)
  have q: "ring_radius_of (?objs ! (i + 7)) = ring_radius_of (?objs ! i)"
    if "i + 7 < length ?objs"
  proof -
    from that have "i + 7 < length nasaData" "i + 7 < 50"
      by (simp_all add: objs length_universe_planets)
    then have "ring_radius_of (?objs ! (i + 7)) = 112.5 + real ((i + 7) mod 7) * 93.75"
      by (simp add: objs nth_universe_planets ring_radius_of_universe_planet)
    with r show ?thesis by simp
  qed
  from r p q show "ring_radius_of (?objs ! i) = 112.5 + real (i mod 7) * 93.75
     \<and> (\<exists>a. position (?objs ! i)
              = (cos a * (112.5 + real (i mod 7) * 93.75), (rnd i - 0.5) * 150,
                 sin a * (112.5 + real (i mod 7) * 93.75)))
     \<and> (i + 7 < length ?objs \<longrightarrow> ring_radius_of (?objs ! (i + 7)) = ring_radius_of (?objs ! i))"
    by blast
qed

theorem ring_radius_period_seven_witness:
  "length (universePlanets (generateUniversePlanets (\<lambda>_. 1 / 2) (synthetic_records 50) initial_state)) = 50
   \<and> kepoi_name (synthetic_records 50 ! 0) = ''P0''
   \<and> kepoi_name (synthetic_records 50 ! 49) = ''P49''
   \<and> ring_radius_of (universePlanets (generateUniversePlanets (\<lambda>_. 1 / 2) (synthetic_records 50) initial_state) ! 0) = 112.5
   \<and> ring_radius_of (universePlanets (generateUniversePlanets (\<lambda>_. 1 / 2) (synthetic_records 50) initial_state) ! 7) = 112.5
   \<and> ring_radius_of (universePlanets (generateUniversePlanets (\<lambda>_. 1 / 2) (synthetic_records 50) initial_state) ! (0 + 7))
       = ring_radius_of (universePlanets (generateUniversePlanets (\<lambda>_. 1 / 2) (synthetic_records 50) initial_state) ! 0)"
proof -
  have l: "length (universePlanets (generateUniversePlanets (\<lambda>_. 1 / 2) (synthetic_records 50) initial_state)) = 50"
    by (simp add: generateUniversePlanets_def length_universe_planets synthetic_records_def)
  have n: "kepoi_name (synthetic_records 50 ! 0) = ''P0''" "kepoi_name (synthetic_records 50 ! 49) = ''P49''"
    by code_simp+
  note T = ring_radius_period_seven [of "\<lambda>_. 1 / 2" "synthetic_records 50" initial_state, unfolded l]
  from T have r0: "ring_radius_of (universePlanets (generateUniversePlanets (\<lambda>_. 1 / 2) (synthetic_records 50) initial_state) ! 0) = 112.5"
    by simp
  from T have "7 < (50::nat) \<longrightarrow> ring_radius_of (universePlanets (generateUniversePlanets (\<lambda>_. 1 / 2) (synthetic_records 50) initial_state) ! 7) = 112.5 + real (7 mod 7) * 93.75"
    by blast
  then have r7: "ring_radius_of (universePlanets (generateUniversePlanets (\<lambda>_. 1 / 2) (synthetic_records 50) initial_state) ! 7) = 112.5"
    by simp
  from l n r0 r7 show ?thesis by simp
qed

text \<open>
  Claim C5. The display radius of the object at index \<open>i\<close> is the planetary radius of
  record \<open>i\<close> clamped to \<open>[0.5, 3]\<close>: it lies in that interval, it is the source radius
  when that one is in the interval already, and a larger source radius never gives a
  smaller display radius.
\<close>

theorem display_radius_clamped:
  "\<forall>i < length (universePlanets (generateUniversePlanets rnd nasaData s)).
     radius (universePlanets (generateUniversePlanets rnd nasaData s) ! i)
       = max (1 / 2) (min 3 (koi_prad (nasaData ! i)))
     \<and> 1 / 2 \<le> radius (universePlanets (generateUniversePlanets rnd nasaData s) ! i)
     \<and> radius (universePlanets (generateUniversePlanets rnd nasaData s) ! i) \<le> 3
     \<and> (1 / 2 \<le> koi_prad (nasaData ! i) \<and> koi_prad (nasaData ! i) \<le> 3 \<longrightarrow>
          radius (universePlanets (generateUniversePlanets rnd nasaData s) ! i)
            = koi_prad (nasaData ! i))
     \<and> (\<forall>j < length (universePlanets (generateUniversePlanets rnd nasaData s)).
          koi_prad (nasaData ! i) \<le> koi_prad (nasaData ! j) \<longrightarrow>
          radius (universePlanets (generateUniversePlanets rnd nasaData s) ! i)
            \<le> radius (universePlanets (generateUniversePlanets rnd nasaData s) ! j))"
  by (auto simp add: generateUniversePlanets_def length_universe_planets nth_universe_planets
        universe_planet_def Let_def)

theorem display_radius_clamped_witness:
  "radius (universePlanets (generateUniversePlanets (\<lambda>_. 1 / 2) radius_samples initial_state) ! 0) = 1 / 2
   \<and> radius (universePlanets (generateUniversePlanets (\<lambda>_. 1 / 2) radius_samples initial_state) ! 1) = 3 / 2
   \<and> radius (universePlanets (generateUniversePlanets (\<lambda>_. 1 / 2) radius_samples initial_state) ! 2) = 3
   \<and> radius (universePlanets (generateUniversePlanets (\<lambda>_. 1 / 2) radius_samples initial_state) ! 0)
       \<le> radius (universePlanets (generateUniversePlanets (\<lambda>_. 1 / 2) radius_samples initial_state) ! 2)"
proof -
  have l: "length (universePlanets (generateUniversePlanets (\<lambda>_. 1 / 2) radius_samples initial_state)) = 3"
    by (simp add: generateUniversePlanets_def length_universe_planets radius_samples_def)
  have p: "koi_prad (radius_samples ! 0) = 1 / 5" "koi_prad (radius_samples ! 1) = 3 / 2"
    "koi_prad (radius_samples ! 2) = 10"
    by (simp_all add: radius_samples_def)
  note T = display_radius_clamped [of "\<lambda>_. 1 / 2" radius_samples initial_state, unfolded l]
  from T p have r0: "radius (universePlanets (generateUniversePlanets (\<lambda>_. 1 / 2) radius_samples initial_state) ! 0) = 1 / 2"
    by simp
  from T p have r1: "radius (universePlanets (generateUniversePlanets (\<lambda>_. 1 / 2) radius_samples initial_state) ! 1) = 3 / 2"
    by simp
  from T p have r2: "radius (universePlanets (generateUniversePlanets (\<lambda>_. 1 / 2) radius_samples initial_state) ! 2) = 3"
    by simp
  from r0 r1 r2 show ?thesis by simp
qed

section \<open>Properties of the colour, the atmosphere and the texture\<close>

text \<open>
  Claim C2, as the code has it. The colour is a total function of the temperature with the
  bands below 200 \<^verbatim>\<open>blue\<close>, below 260 \<^verbatim>\<open>cyan\<close>, below 290 \<^verbatim>\<open>green\<close>, below 320
  \<^verbatim>\<open>yellowgreen\<close>, below 350 \<^verbatim>\<open>yellow\<close>, below 400 \<^verbatim>\<open>orange\<close>, below 500
  \<^verbatim>\<open>redorange\<close>, and \<^verbatim>\<open>red\<close> from 500 on. Each band contains its lower bound:
  200 is not \<^verbatim>\<open>blue\<close>, 260 is \<^verbatim>\<open>green\<close>, 150 is \<^verbatim>\<open>blue\<close>, 500 is \<^verbatim>\<open>red\<close>.
\<close>

theorem color_bands:
  "(t < 200 \<longrightarrow> getPlanetColor t = ''blue'')
   \<and> (200 \<le> t \<and> t < 260 \<longrightarrow> getPlanetColor t = ''cyan'')
   \<and> (260 \<le> t \<and> t < 290 \<longrightarrow> getPlanetColor t = ''green'')
   \<and> (290 \<le> t \<and> t < 320 \<longrightarrow> getPlanetColor t = ''yellowgreen'')
   \<and> (320 \<le> t \<and> t < 350 \<longrightarrow> getPlanetColor t = ''yellow'')
   \<and> (350 \<le> t \<and> t < 400 \<longrightarrow> getPlanetColor t = ''orange'')
   \<and> (400 \<le> t \<and> t < 500 \<longrightarrow> getPlanetColor t = ''redorange'')
   \<and> (500 \<le> t \<longrightarrow> getPlanetColor t = ''red'')
   \<and> getPlanetColor 200 \<noteq> ''blue''
   \<and> getPlanetColor 260 = ''green''
   \<and> getPlanetColor 150 = ''blue''
   \<and> getPlanetColor 500 = ''red''"
  by (simp add: getPlanetColor_def)

theorem color_bands_witness:
  "getPlanetColor 199 = ''blue'' \<and> getPlanetColor 200 = ''cyan'' \<and> getPlanetColor 259 = ''cyan''
   \<and> getPlanetColor 289 = ''green'' \<and> getPlanetColor 300 = ''yellowgreen''
   \<and> getPlanetColor 349 = ''yellow'' \<and> getPlanetColor 399 = ''orange''
   \<and> getPlanetColor 450 = ''redorange'' \<and> getPlanetColor 1000 = ''red''"
  using color_bands [of 199] color_bands [of 200] color_bands [of 259] color_bands [of 289]
    color_bands [of 300] color_bands [of 349] color_bands [of 399] color_bands [of 450]
    color_bands [of 1000]
  by simp

text \<open>
  The labels of two bands are written without a hyphen: 300 is not \<^verbatim>\<open>yellow-green\<close>
  and 450 is not \<^verbatim>\<open>red-orange\<close>.
\<close>

theorem color_labels_counterexample:
  "getPlanetColor 300 \<noteq> ''yellow-green'' \<and> getPlanetColor 450 \<noteq> ''red-orange''"
  by (simp add: getPlanetColor_def)

text \<open>
  Claim C8. The atmosphere is chosen by the temperature regime (below 220, from 220 and
  below 280, from 280 on), one composition for each, and in every regime the percentages
  add up to 100.
\<close>

theorem atmosphere_regimes_sum:
  "(t < 220 \<longrightarrow> map component (generateAtmosphereData t) = [''N2'', ''CO2'', ''H2O'', ''CH4''])
   \<and> (220 \<le> t \<and> t < 280 \<longrightarrow>
        map component (generateAtmosphereData t) = [''H2O'', ''N2'', ''CO2'', ''O2''])
   \<and> (280 \<le> t \<longrightarrow> map component (generateAtmosphereData t) = [''CO2'', ''H2O'', ''N2'', ''SO2''])
   \<and> sum_list (map percentage (generateAtmosphereData t)) = 100"
  by (simp add: generateAtmosphereData_def)

theorem atmosphere_regimes_sum_witness:
  "map component (generateAtmosphereData 150) = [''N2'', ''CO2'', ''H2O'', ''CH4'']
   \<and> map component (generateAtmosphereData 220) = [''H2O'', ''N2'', ''CO2'', ''O2'']
   \<and> map component (generateAtmosphereData 280) = [''CO2'', ''H2O'', ''N2'', ''SO2'']
   \<and> sum_list (map percentage (generateAtmosphereData 150)) = 100
   \<and> sum_list (map percentage (generateAtmosphereData 220)) = 100
   \<and> sum_list (map percentage (generateAtmosphereData 280)) = 100"
  using atmosphere_regimes_sum [of 150] atmosphere_regimes_sum [of 220]
    atmosphere_regimes_sum [of 280]
  by simp

text \<open>
  Claim C9. The texture is a function of the identifier and the temperature alone: it is
  the file of the temperature's band whose variant number is one more than the sum of the
  identifier's character codes modulo 5. So equal inputs give equal textures, and so do
  inputs that agree on the band and on that remainder.
\<close>

theorem texture_from_identifier_and_temperature:
  "getTextureForTemperature temp planetId
     = ''planet-'' @ texture_band temp @ ''-'' @ [char_of (49 + char_code_sum planetId mod 5)] @ ''.jpg''
   \<and> (temp' = temp \<and> planetId' = planetId \<longrightarrow>
        getTextureForTemperature temp' planetId' = getTextureForTemperature temp planetId)
   \<and> (texture_band temp' = texture_band temp
        \<and> char_code_sum planetId' mod 5 = char_code_sum planetId mod 5 \<longrightarrow>
        getTextureForTemperature temp' planetId' = getTextureForTemperature temp planetId)"
proof -
  have eq: "getTextureForTemperature t p
     = ''planet-'' @ texture_band t @ ''-'' @ [char_of (49 + char_code_sum p mod 5)] @ ''.jpg''"
    for t p
    unfolding getTextureForTemperature_def foldl_char_codes
    using texture_of_variant [of "char_code_sum p mod 5" t]
    by (simp add: Let_def)
  show ?thesis
    by (simp add: eq)
qed

theorem texture_from_identifier_and_temperature_witness:
  "getTextureForTemperature 250 ''K03034.01'' = ''planet-cyan-cold-4.jpg''
   \<and> getTextureForTemperature 250 ''K03034.01'' = getTextureForTemperature 250 ''K03034.01''
   \<and> getTextureForTemperature 210 ''K03034.10'' = getTextureForTemperature 250 ''K03034.01''"
proof -
  have c: "char_code_sum ''K03034.01'' mod 5 = 3" "char_code_sum ''K03034.10'' mod 5 = 3"
    by (simp_all add: char_code_sum_def)
  have b: "texture_band 250 = ''cyan-cold''" "texture_band 210 = ''cyan-cold''"
    by (simp_all add: texture_band_def)
  note d = variant_digits
  note T = texture_from_identifier_and_temperature [of 250 "''K03034.01''" 210 "''K03034.10''"]
  from T c b d have t1: "getTextureForTemperature 250 ''K03034.01'' = ''planet-cyan-cold-4.jpg''"
    by simp
  from T c b have t2: "getTextureForTemperature 210 ''K03034.10'' = getTextureForTemperature 250 ''K03034.01''"
    by simp
  from texture_from_identifier_and_temperature [of 250 "''K03034.01''" 250 "''K03034.01''"]
  have t3: "getTextureForTemperature 250 ''K03034.01'' = getTextureForTemperature 250 ''K03034.01''"
    by simp
  from t1 t2 t3 show ?thesis by simp
qed

section \<open>Properties of a session\<close>

text \<open>
  Claim C6. The discovered set only grows: an identifier in the set after some events
  (clicks, searches, closing the overlay, and every other event of the page) is still in
  it after any further events. Selecting an object whose identifier is in the set already
  leaves the set, and so its size, as it was.
\<close>

theorem discovered_monotone_idempotent:
  "(x \<in> discoveredPlanets (run s evs) \<longrightarrow> x \<in> discoveredPlanets (run s (evs @ evs')))
   \<and> (planet_id planet \<in> discoveredPlanets s \<longrightarrow>
        discoveredPlanets (handlePlanetSelect planet s) = discoveredPlanets s
        \<and> card (discoveredPlanets (handlePlanetSelect planet s)) = card (discoveredPlanets s))"
proof -
  have "discoveredPlanets (run s evs) \<subseteq> discoveredPlanets (run s (evs @ evs'))"
    unfolding run_append by (rule run_discovered)
  moreover have "discoveredPlanets (handlePlanetSelect planet s) = discoveredPlanets s"
    if "planet_id planet \<in> discoveredPlanets s"
    using that by (simp add: handlePlanetSelect_def insert_absorb)
  ultimately show ?thesis by auto
qed

theorem discovered_monotone_idempotent_witness:
  "''P3'' \<in> discoveredPlanets (run initial_state [PlanetClick (universe_planet (\<lambda>_. 1 / 2) 3 (synthetic_record 3))])
   \<and> ''P3'' \<in> discoveredPlanets
        (run initial_state
          ([PlanetClick (universe_planet (\<lambda>_. 1 / 2) 3 (synthetic_record 3))]
           @ [SearchInput ''zzz'', CloseOverlay, SearchInput ''p1'',
              PlanetClick (universe_planet (\<lambda>_. 1 / 2) 4 (synthetic_record 4))]))
   \<and> card (discoveredPlanets
        (handlePlanetSelect (universe_planet (\<lambda>_. 1 / 2) 3 (synthetic_record 3))
          (handlePlanetSelect (universe_planet (\<lambda>_. 1 / 2) 3 (synthetic_record 3)) initial_state))) = 1"
proof -
  have n: "synthetic_name 3 = ''P3''"
    by code_simp
  have id3: "planet_id (universe_planet (\<lambda>_. 1 / 2) 3 (synthetic_record 3)) = ''P3''"
    by (simp add: universe_planet_def Let_def synthetic_record_def n)
  have d1: "discoveredPlanets (handlePlanetSelect (universe_planet (\<lambda>_. 1 / 2) 3 (synthetic_record 3)) initial_state) = {''P3''}"
    by (simp add: handlePlanetSelect_def initial_state_def id3)
  have d0: "discoveredPlanets (run initial_state [PlanetClick (universe_planet (\<lambda>_. 1 / 2) 3 (synthetic_record 3))]) = {''P3''}"
    by (simp add: run_def d1)
  from discovered_monotone_idempotent
    [of "''P3''" initial_state "[PlanetClick (universe_planet (\<lambda>_. 1 / 2) 3 (synthetic_record 3))]"
      "[SearchInput ''zzz'', CloseOverlay, SearchInput ''p1'',
        PlanetClick (universe_planet (\<lambda>_. 1 / 2) 4 (synthetic_record 4))]"] d0
  have a: "''P3'' \<in> discoveredPlanets
        (run initial_state
          ([PlanetClick (universe_planet (\<lambda>_. 1 / 2) 3 (synthetic_record 3))]
           @ [SearchInput ''zzz'', CloseOverlay, SearchInput ''p1'',
              PlanetClick (universe_planet (\<lambda>_. 1 / 2) 4 (synthetic_record 4))]))"
    by blast
  from discovered_monotone_idempotent
    [where planet = "universe_planet (\<lambda>_. 1 / 2) 3 (synthetic_record 3)"
      and s = "handlePlanetSelect (universe_planet (\<lambda>_. 1 / 2) 3 (synthetic_record 3)) initial_state"] d1 id3
  have b: "card (discoveredPlanets
        (handlePlanetSelect (universe_planet (\<lambda>_. 1 / 2) 3 (synthetic_record 3))
          (handlePlanetSelect (universe_planet (\<lambda>_. 1 / 2) 3 (synthetic_record 3)) initial_state))) = 1"
    by simp
  from d0 a b show ?thesis by simp
qed

text \<open>
  Claim C7. With an object selected, a search for a non-empty string that no object's
  name contains (both in lower case) changes the stored search string and nothing else;
  the selection stays.
\<close>

theorem failed_search_keeps_selection:
  assumes "selectedPlanet s = Some planet"
    and "query \<noteq> []"
    and "\<forall>p \<in> set (universePlanets s). \<not> includes_str (toLowerCase (name p)) (toLowerCase query)"
  shows "handleSearch query s = s\<lparr>searchQuery := query\<rparr>
         \<and> selectedPlanet (handleSearch query s) = Some planet"
proof -
  from assms(3) have
    "find (\<lambda>p. includes_str (toLowerCase (name p)) (toLowerCase query)) (universePlanets s) = None"
    by (simp add: find_None_iff)
  with assms(1,2) show ?thesis
    by (simp add: handleSearch_def Let_def)
qed

theorem failed_search_keeps_selection_witness:
  "selectedPlanet scenario_state = Some planet_P3
   \<and> name planet_P3 = ''P3''
   \<and> list_all (\<lambda>p. \<not> includes_str (toLowerCase (name p)) (toLowerCase ''zzz''))
         (universePlanets scenario_state)
   \<and> handleSearch ''zzz'' scenario_state = scenario_state\<lparr>searchQuery := ''zzz''\<rparr>
   \<and> selectedPlanet (handleSearch ''zzz'' scenario_state) = Some planet_P3"
proof -
  have sel: "selectedPlanet scenario_state = Some planet_P3"
    by (simp add: scenario_state_def mounted_state)
  have "synthetic_name 3 = ''P3''"
    by code_simp
  then have nm: "name planet_P3 = ''P3''"
    by (simp add: planet_P3_def universe_planet_def Let_def synthetic_record_def)
  have "map name (universePlanets scenario_state) = [''P0'', ''P1'', ''P2'', ''P3'', ''P4'']"
    unfolding scenario_state_def mounted_state
    by (simp add: map_name_universe_planets synthetic_names_5 length_synthetic_records)
  with no_zzz have
    "list_all (\<lambda>n. \<not> includes_str (toLowerCase n) (toLowerCase ''zzz''))
       (map name (universePlanets scenario_state))"
    by simp
  then have none: "\<forall>p \<in> set (universePlanets scenario_state).
         \<not> includes_str (toLowerCase (name p)) (toLowerCase ''zzz'')"
    by (simp add: list_all_iff)
  have q: "''zzz'' \<noteq> []"
    by simp
  from none have all: "list_all (\<lambda>p. \<not> includes_str (toLowerCase (name p)) (toLowerCase ''zzz''))
         (universePlanets scenario_state)"
    by (simp only: list_all_iff)
  from failed_search_keeps_selection [OF sel q none] sel nm all show ?thesis
    by blast
qed

text \<open>
  Claim C10, as the code has it. A call of \<^verbatim>\<open>generateExoplanet\<close> that fails leaves the
  detail data as it was and shows exactly one destructive toast. With a name that trims
  to the empty string the call returns at once: apart from the toast nothing changes, so
  the loading flag stays as the call found it and no timer is started. With any other
  name the first part raises the flag and starts the timer, without a toast; when the
  timer fires and no record of the call contains the name or is contained in it (in lower
  case), the second part shows the toast, writes to the console, and lowers the flag;
  no other cell changes, whatever happened in between.
\<close>

theorem generateExoplanet_failure_atomic:
  "(trim (planetName s) = [] \<longrightarrow>
      generateExoplanet_begin s
        = s\<lparr>toasts := toasts s @
              [\<lparr>title = ''Planet Name Required'',
                description = ''Please enter an exoplanet name or generate a random one.'',
                variant = Some Destructive\<rparr>]\<rparr>
      \<and> exoplanetData (generateExoplanet_begin s) = exoplanetData s
      \<and> isLoading (generateExoplanet_begin s) = isLoading s
      \<and> pending (generateExoplanet_begin s) = pending s)
   \<and> (trim (planetName s) \<noteq> [] \<longrightarrow>
      generateExoplanet_begin s
        = s\<lparr>isLoading := True,
            pending := pending s @
              [\<lparr>call_planetName = planetName s, call_availablePlanets = availablePlanets s\<rparr>]\<rparr>
      \<and> exoplanetData (generateExoplanet_begin s) = exoplanetData s
      \<and> toasts (generateExoplanet_begin s) = toasts s)
   \<and> ((\<forall>p \<in> set (call_availablePlanets call).
          \<not> includes_str (toLowerCase (kepoi_name p)) (toLowerCase (call_planetName call))
          \<and> \<not> includes_str (toLowerCase (call_planetName call)) (toLowerCase (kepoi_name p))) \<longrightarrow>
      generateExoplanet_resume rnd metrics_of call s'
        = s'\<lparr>console := console s' @
               [''Error loading exoplanet: Planet not found in NASA database''],
             toasts := toasts s' @
               [\<lparr>title = ''Planet Not Found'',
                 description =
                   ''This planet is not in the NASA habitable zone database. Try a random one!'',
                 variant = Some Destructive\<rparr>],
             isLoading := False\<rparr>
      \<and> exoplanetData (generateExoplanet_resume rnd metrics_of call s') = exoplanetData s'
      \<and> \<not> isLoading (generateExoplanet_resume rnd metrics_of call s'))"
proof (intro conjI impI)
  assume "\<forall>p \<in> set (call_availablePlanets call).
          \<not> includes_str (toLowerCase (kepoi_name p)) (toLowerCase (call_planetName call))
          \<and> \<not> includes_str (toLowerCase (call_planetName call)) (toLowerCase (kepoi_name p))"
  then have none:
    "find (\<lambda>p. includes_str (toLowerCase (kepoi_name p)) (toLowerCase (call_planetName call))
              \<or> includes_str (toLowerCase (call_planetName call)) (toLowerCase (kepoi_name p)))
       (call_availablePlanets call) = None"
    by (simp add: find_None_iff)
  then show "generateExoplanet_resume rnd metrics_of call s'
        = s'\<lparr>console := console s' @
               [''Error loading exoplanet: Planet not found in NASA database''],
             toasts := toasts s' @
               [\<lparr>title = ''Planet Not Found'',
                 description =
                   ''This planet is not in the NASA habitable zone database. Try a random one!'',
                 variant = Some Destructive\<rparr>],
             isLoading := False\<rparr>"
    by (simp add: generateExoplanet_resume_def)
  from none show "exoplanetData (generateExoplanet_resume rnd metrics_of call s') = exoplanetData s'"
    by (simp add: generateExoplanet_resume_def)
  from none show "\<not> isLoading (generateExoplanet_resume rnd metrics_of call s')"
    by (simp add: generateExoplanet_resume_def)
qed (simp_all add: generateExoplanet_begin_def)

theorem generateExoplanet_failure_atomic_witness:
  "trim (planetName initial_state) = []
   \<and> exoplanetData (generateExoplanet_begin initial_state) = None
   \<and> \<not> isLoading (generateExoplanet_begin initial_state)
   \<and> pending (generateExoplanet_begin initial_state) = []
   \<and> length (toasts (generateExoplanet_begin initial_state)) = 1
   \<and> trim (planetName unmatched_state) \<noteq> []
   \<and> exoplanetData (generateExoplanet_begin unmatched_state) = None
   \<and> toasts (generateExoplanet_begin unmatched_state) = []
   \<and> pending (generateExoplanet_begin unmatched_state) = [call_Zeta]
   \<and> list_all
        (\<lambda>p. \<not> includes_str (toLowerCase (kepoi_name p)) (toLowerCase (call_planetName call_Zeta))
           \<and> \<not> includes_str (toLowerCase (call_planetName call_Zeta)) (toLowerCase (kepoi_name p)))
        (call_availablePlanets call_Zeta)
   \<and> exoplanetData
        (step (generateExoplanet_begin unmatched_state) (TimerFired (\<lambda>_. 1 / 2) (\<lambda>_. []))) = None
   \<and> \<not> isLoading
        (step (generateExoplanet_begin unmatched_state) (TimerFired (\<lambda>_. 1 / 2) (\<lambda>_. [])))
   \<and> length (toasts
        (step (generateExoplanet_begin unmatched_state) (TimerFired (\<lambda>_. 1 / 2) (\<lambda>_. [])))) = 1"
proof -
  have b: "trim (planetName initial_state) = []"
    by (simp add: initial_state_def trim_def)
  have e0: "exoplanetData initial_state = None" "toasts initial_state = []"
    "\<not> isLoading initial_state" "pending initial_state = []"
    by (simp_all add: initial_state_def)
  note A = generateExoplanet_failure_atomic [of initial_state, THEN conjunct1, THEN mp, OF b]
  from A e0 have a1: "exoplanetData (generateExoplanet_begin initial_state) = None"
    and a2: "\<not> isLoading (generateExoplanet_begin initial_state)"
    and a3: "pending (generateExoplanet_begin initial_state) = []"
    by simp_all
  from A e0 have a4: "length (toasts (generateExoplanet_begin initial_state)) = 1"
    by (elim conjE) simp
  have u: "planetName unmatched_state = ''Zeta''"
    "availablePlanets unmatched_state = synthetic_records 5"
    "exoplanetData unmatched_state = None" "toasts unmatched_state = []"
    "pending unmatched_state = []"
    unfolding unmatched_state_def mounted_state
    by (simp_all add: planet_Zeta_def initial_state_def)
  have nb: "trim (planetName unmatched_state) \<noteq> []"
    by (simp add: u trim_empty_iff is_white_space_def)
  note B = generateExoplanet_failure_atomic [of unmatched_state, THEN conjunct2, THEN conjunct1,
      THEN mp, OF nb]
  from B u have b1: "exoplanetData (generateExoplanet_begin unmatched_state) = None"
    and b2: "toasts (generateExoplanet_begin unmatched_state) = []"
    by simp_all
  from B u have b3: "pending (generateExoplanet_begin unmatched_state) = [call_Zeta]"
    by (elim conjE) (simp add: call_Zeta_def)
  from no_zeta have all: "list_all
        (\<lambda>p. \<not> includes_str (toLowerCase (kepoi_name p)) (toLowerCase (call_planetName call_Zeta))
           \<and> \<not> includes_str (toLowerCase (call_planetName call_Zeta)) (toLowerCase (kepoi_name p)))
        (call_availablePlanets call_Zeta)"
    by (simp add: call_Zeta_def list_all_iff flip: synthetic_names_5)
  then have nm: "\<forall>p \<in> set (call_availablePlanets call_Zeta).
          \<not> includes_str (toLowerCase (kepoi_name p)) (toLowerCase (call_planetName call_Zeta))
          \<and> \<not> includes_str (toLowerCase (call_planetName call_Zeta)) (toLowerCase (kepoi_name p))"
    by (simp only: list_all_iff)
  have st: "step (generateExoplanet_begin unmatched_state) (TimerFired (\<lambda>_. 1 / 2) (\<lambda>_. []))
      = generateExoplanet_resume (\<lambda>_. 1 / 2) (\<lambda>_. []) call_Zeta
          ((generateExoplanet_begin unmatched_state)\<lparr>pending := []\<rparr>)"
    by (simp add: b3)
  note C = generateExoplanet_failure_atomic
      [of _ call_Zeta "\<lambda>_. 1 / 2" "\<lambda>_. []" "(generateExoplanet_begin unmatched_state)\<lparr>pending := []\<rparr>",
        THEN conjunct2, THEN conjunct2, THEN mp, OF nm]
  from C b1 have c1: "exoplanetData
        (step (generateExoplanet_begin unmatched_state) (TimerFired (\<lambda>_. 1 / 2) (\<lambda>_. []))) = None"
    unfolding st by simp
  from C have c2: "\<not> isLoading
        (step (generateExoplanet_begin unmatched_state) (TimerFired (\<lambda>_. 1 / 2) (\<lambda>_. [])))"
    unfolding st by blast
  from C b2 have c3: "length (toasts
        (step (generateExoplanet_begin unmatched_state) (TimerFired (\<lambda>_. 1 / 2) (\<lambda>_. [])))) = 1"
    unfolding st by (elim conjE) simp
  from b a1 a2 a3 a4 nb b1 b2 b3 all c1 c2 c3 show ?thesis
    by blast
qed

text \<open>
  A blank name does not lower the flag. The records hold one whose name is two spaces;
  the detail view of \<^verbatim>\<open>P3\<close> is asked for, which raises the flag, and before its timer
  fires the object with the blank name is selected. The call for that name returns with
  one more toast, no timer started, and the flag still up.
\<close>

theorem blank_name_flag_counterexample:
  "trim (planetName loading_blank_state) = []
   \<and> pending (generateExoplanet_begin loading_blank_state) = pending loading_blank_state
   \<and> length (toasts (generateExoplanet_begin loading_blank_state))
       = Suc (length (toasts loading_blank_state))
   \<and> isLoading (generateExoplanet_begin loading_blank_state)
   \<and> isLoading (step loading_blank_state ExpandOverlay)"
proof -
  have "synthetic_name 3 = ''P3''"
    by code_simp
  then have n3: "name planet_P3 = ''P3''"
    by (simp add: planet_P3_def universe_planet_def Let_def synthetic_record_def)
  have nb: "name planet_blank = ''  ''"
    by (simp add: planet_blank_def universe_planet_def Let_def blank_record_def)
  have t3: "trim ''P3'' \<noteq> []"
    by (simp add: trim_empty_iff is_white_space_def)
  have tb: "trim ''  '' = []"
    by (simp add: trim_empty_iff is_white_space_def)
  have s: "planetName loading_blank_state = ''  ''" "isLoading loading_blank_state"
    "selectedPlanet loading_blank_state = Some planet_blank"
    by (simp_all add: loading_blank_state_def run_def universe_effect_def loadNASAData_def
          generateUniversePlanets_def handlePlanetSelect_def switchToDetailedView_def
          generateExoplanet_begin_def initial_state_def n3 nb t3)
  from s tb show ?thesis
    by (simp add: switchToDetailedView_def generateExoplanet_begin_def)
qed

end
